theory Spec2Isabelle
  imports Complex_Main "HOL-Library.Sublist"
begin

section \<open>Strings and numbers of the host language\<close>

text \<open>
  Strings are lists of 8-bit characters (the source's text is ASCII apart from the peso
  sign, written here as its three UTF-8 bytes); white space and letter case are those of
  ASCII. Monetary amounts and the other \<^verbatim>\<open>number\<close> fields are exact rationals, so that
  sums and differences carry no rounding; session counts are integers. An optional
  field \<^verbatim>\<open>f?: T\<close> is a \<open>T option\<close>, with \<open>None\<close> for \<^verbatim>\<open>undefined\<close>.
\<close>

definition truthy :: "string option \<Rightarrow> bool" where
  \<comment> \<open>A string-valued expression used as a condition: defined and not empty.\<close>
  "truthy s = (case s of None \<Rightarrow> False | Some t \<Rightarrow> t \<noteq> [])"

definition orElse :: "string option \<Rightarrow> string option \<Rightarrow> string option" where
  \<comment> \<open>\<^verbatim>\<open>a || b\<close> on optional strings.\<close>
  "orElse a b = (if truthy a then a else b)"

definition isDigit :: "char \<Rightarrow> bool" where
  "isDigit c = (c \<in> set ''0123456789'')"

fun indexOf :: "char \<Rightarrow> string \<Rightarrow> nat" where
  "indexOf c [] = 0"
| "indexOf c (d # ds) = (if c = d then 0 else Suc (indexOf c ds))"

definition digitVal :: "char \<Rightarrow> nat" where
  "digitVal c = indexOf c ''0123456789''"

definition digitChar :: "nat \<Rightarrow> char" where
  "digitChar n = ''0123456789'' ! n"

definition isSpace :: "char \<Rightarrow> bool" where
  \<comment> \<open>The ASCII white space: tab, line feed, vertical tab, form feed, carriage return, space.\<close>
  "isSpace c = (c \<in> set [CHR 0x09, CHR 0x0A, CHR 0x0B, CHR 0x0C, CHR 0x0D, CHR '' ''])"

fun showNat :: "nat \<Rightarrow> string" where
  "showNat n = (if n < 10 then [digitChar n] else showNat (n div 10) @ [digitChar (n mod 10)])"

declare showNat.simps [simp del]

definition showInt :: "int \<Rightarrow> string" where
  "showInt i = (if i < 0 then CHR ''-'' # showNat (nat (- i)) else showNat (nat i))"

definition padStart2 :: "string \<Rightarrow> string" where
  \<comment> \<open>\<^verbatim>\<open>s.padStart(2, '0')\<close>\<close>
  "padStart2 s = replicate (2 - length s) CHR ''0'' @ s"

definition toFixed2 :: "rat \<Rightarrow> string" where
  \<comment> \<open>\<^verbatim>\<open>x.toFixed(2)\<close>: the sign, then the nearest multiple of 1/100 of the absolute
      value, the larger one at a tie.\<close>
  "toFixed2 x =
     (let a = \<bar>x\<bar>;
          n = nat \<lfloor>a * 100 + 1 / 2\<rfloor>;
          body = showNat (n div 100) @ ''.'' @ padStart2 (showNat (n mod 100))
      in if x < 0 then CHR ''-'' # body else body)"

definition lowerChar :: "char \<Rightarrow> char" where
  "lowerChar c = (if c \<in> set ''ABCDEFGHIJKLMNOPQRSTUVWXYZ''
                  then ''abcdefghijklmnopqrstuvwxyz'' ! indexOf c ''ABCDEFGHIJKLMNOPQRSTUVWXYZ''
                  else c)"

definition toLowerCase :: "string \<Rightarrow> string" where
  "toLowerCase s = map lowerChar s"

fun includesStr :: "string \<Rightarrow> string \<Rightarrow> bool" where
  \<comment> \<open>\<^verbatim>\<open>hay.includes(needle)\<close>\<close>
  "includesStr [] needle = (needle = [])"
| "includesStr (c # cs) needle = (prefix needle (c # cs) \<or> includesStr cs needle)"

definition trim :: "string \<Rightarrow> string" where
  "trim s = rev (dropWhile isSpace (rev (dropWhile isSpace s)))"

definition joinPlus :: "string list \<Rightarrow> string" where
  \<comment> \<open>\<^verbatim>\<open>xs.join(' + ')\<close>\<close>
  "joinPlus xs = (case xs of [] \<Rightarrow> [] | y # ys \<Rightarrow> foldl (\<lambda>acc z. acc @ '' + '' @ z) y ys)"

definition peso :: string where
  "peso = [CHR 0xE2, CHR 0x82, CHR 0xB1]"

definition digitsToNat :: "string \<Rightarrow> nat" where
  "digitsToNat ds = foldl (\<lambda>a c. 10 * a + digitVal c) 0 ds"

definition parseInt10 :: "string \<Rightarrow> int option" where
  \<comment> \<open>\<^verbatim>\<open>parseInt(s, 10)\<close>: leading white space, an optional sign, the longest run of
      digits; \<open>None\<close> is \<^verbatim>\<open>NaN\<close>.\<close>
  "parseInt10 s =
     (let t = dropWhile isSpace s;
          neg = (t \<noteq> [] \<and> hd t = CHR ''-'');
          u = (if t \<noteq> [] \<and> (hd t = CHR ''-'' \<or> hd t = CHR ''+'') then tl t else t);
          ds = takeWhile isDigit u
      in if ds = [] then None
         else Some (if neg then - int (digitsToNat ds) else int (digitsToNat ds)))"

fun splitDashSlash :: "string \<Rightarrow> string list" where
  \<comment> \<open>\<^verbatim>\<open>s.split(/[-/]/)\<close>\<close>
  "splitDashSlash [] = [[]]"
| "splitDashSlash (c # cs) =
     (if c = CHR ''-'' \<or> c = CHR ''/'' then [] # splitDashSlash cs
      else (case splitDashSlash cs of [] \<Rightarrow> [[c]] | p # ps \<Rightarrow> (c # p) # ps))"



section \<open>Calendar dates (src/utils/dateUtils.ts)\<close>

text \<open>
  A \<^verbatim>\<open>Date\<close> is modelled by its local calendar fields: year, month index (0 to 11, as
  \<^verbatim>\<open>getMonth\<close> returns it), day of the month and milliseconds since local midnight.
  \<open>None\<close> is the \<^verbatim>\<open>Invalid Date\<close>. Daylight-saving gaps are not modelled, and the
  representable range is cut at whole years.
\<close>

record JsDate =
  d_year :: int
  d_month :: int
  d_day :: int
  d_ms :: nat

definition isLeap :: "int \<Rightarrow> bool" where
  "isLeap y = ((y mod 4 = 0 \<and> y mod 100 \<noteq> 0) \<or> y mod 400 = 0)"

definition daysInMonth :: "int \<Rightarrow> int \<Rightarrow> int" where
  "daysInMonth y m =
     (if m = 1 then (if isLeap y then 29 else 28)
      else if m = 3 \<or> m = 5 \<or> m = 8 \<or> m = 10 then 30 else 31)"

definition prevMonth :: "int \<Rightarrow> int \<Rightarrow> int \<times> int" where
  "prevMonth y m = (if m = 0 then (y - 1, 11) else (y, m - 1))"

definition nextMonth :: "int \<Rightarrow> int \<Rightarrow> int \<times> int" where
  "nextMonth y m = (if m = 11 then (y + 1, 0) else (y, m + 1))"

function normDay :: "int \<Rightarrow> int \<Rightarrow> int \<Rightarrow> int \<times> int \<times> int" where
  "normDay y m d =
     (if d < 1 then
        normDay (fst (prevMonth y m)) (snd (prevMonth y m))
                (d + daysInMonth (fst (prevMonth y m)) (snd (prevMonth y m)))
      else if daysInMonth y m < d then
        normDay (fst (nextMonth y m)) (snd (nextMonth y m)) (d - daysInMonth y m)
      else (y, m, d))"
  by pat_completeness auto
termination
  by (relation "measures [\<lambda>(y, m, d). if d < 1 then 1 else 0,
                          \<lambda>(y, m, d). nat (if d < 1 then 1 - d else d)]")
     (auto simp: daysInMonth_def)

declare normDay.simps [simp del]

definition inRange :: "int \<Rightarrow> bool" where
  "inRange y = (- 271821 < y \<and> y < 275760)"

definition mkDate :: "int \<Rightarrow> int \<Rightarrow> int \<Rightarrow> nat \<Rightarrow> JsDate option" where
  \<comment> \<open>The date of day \<open>d\<close> of month index \<open>mi\<close> of year \<open>y\<close>, any of them out of its
      usual range: months carry into years and days into months.\<close>
  "mkDate y mi d ms =
     (case normDay (y + mi div 12) (mi mod 12) d of
        (y', m', d') \<Rightarrow>
          if inRange y' then Some \<lparr>d_year = y', d_month = m', d_day = d', d_ms = ms\<rparr>
          else None)"

definition newDateYMD :: "int \<Rightarrow> int \<Rightarrow> int \<Rightarrow> JsDate option" where
  \<comment> \<open>\<^verbatim>\<open>new Date(year, monthIndex, day)\<close>\<close>
  "newDateYMD y mi d = mkDate (if 0 \<le> y \<and> y \<le> 99 then 1900 + y else y) mi d 0"

definition dateLe :: "JsDate \<Rightarrow> JsDate \<Rightarrow> bool" where
  "dateLe a b =
     (d_year a < d_year b \<or> (d_year a = d_year b \<and>
       (d_month a < d_month b \<or> (d_month a = d_month b \<and>
         (d_day a < d_day b \<or> (d_day a = d_day b \<and> d_ms a \<le> d_ms b))))))"


definition setHours0 :: "JsDate \<Rightarrow> JsDate" where
  \<comment> \<open>\<^verbatim>\<open>d.setHours(0, 0, 0, 0)\<close>\<close>
  "setHours0 d = d\<lparr>d_ms := 0\<rparr>"

definition parseDate :: "(string \<Rightarrow> JsDate option) \<Rightarrow> string option \<Rightarrow> JsDate option" where
  \<comment> \<open>\<open>host\<close> is \<^verbatim>\<open>new Date(string)\<close>, the parser of the JavaScript engine.\<close>
  "parseDate host dateString =
     (if \<not> truthy dateString \<or> trim (the dateString) = [] then None
      else
        let trimmedDate = trim (the dateString);
            parts = splitDashSlash trimmedDate;
            manual =
              (if length parts = 3 then
                 (case (parseInt10 (parts ! 0), parseInt10 (parts ! 1), parseInt10 (parts ! 2)) of
                    (Some p1, Some p2, Some p3) \<Rightarrow>
                      (let ymd = (if 1000 < p1 then Some (p1, p2, p3)
                                  else if 1000 < p3 then Some (p3, p2, p1)
                                  else None)
                       in case ymd of
                            None \<Rightarrow> None
                          | Some (year, month, day) \<Rightarrow>
                              if year \<noteq> 0 \<and> month \<noteq> 0 \<and> day \<noteq> 0 then
                                (case newDateYMD year (month - 1) day of
                                   None \<Rightarrow> None
                                 | Some manualDate \<Rightarrow>
                                     if d_year manualDate = year
                                        \<and> d_month manualDate = month - 1
                                        \<and> d_day manualDate = day
                                     then Some manualDate else None)
                              else None)
                  | _ \<Rightarrow> None)
               else None)
        in case manual of
             Some d \<Rightarrow> Some d
           | None \<Rightarrow>
               (case host trimmedDate of
                  None \<Rightarrow> None
                | Some fallbackDate \<Rightarrow>
                    if 1900 < d_year fallbackDate \<and> d_year fallbackDate < 2100
                    then Some fallbackDate else None))"

record clock =
  ck_now :: JsDate
  ck_nowMs :: nat

definition isPastOrToday :: "(string \<Rightarrow> JsDate option) \<Rightarrow> clock \<Rightarrow> string option \<Rightarrow> bool" where
  "isPastOrToday host ck date =
     (if \<not> truthy date then False
      else case parseDate host date of
             None \<Rightarrow> False
           | Some dateObj \<Rightarrow> dateLe dateObj (setHours0 (ck_now ck)))"

definition formatToYMD :: "JsDate option \<Rightarrow> string" where
  "formatToYMD date =
     (case date of
        None \<Rightarrow> ''NaN-NaN-NaN''
      | Some d \<Rightarrow> showInt (d_year d) @ ''-'' @ padStart2 (showInt (d_month d + 1))
                  @ ''-'' @ padStart2 (showInt (d_day d)))"

definition getTodayYMD :: "clock \<Rightarrow> string" where
  "getTodayYMD ck = formatToYMD (Some (ck_now ck))"

definition getLocalISOString :: "clock \<Rightarrow> string" where
  "getLocalISOString ck =
     (let d = ck_now ck;
          hours = d_ms d div 3600000;
          minutes = (d_ms d div 60000) mod 60;
          seconds = (d_ms d div 1000) mod 60
      in showInt (d_year d) @ ''-'' @ padStart2 (showInt (d_month d + 1)) @ ''-''
         @ padStart2 (showInt (d_day d)) @ ''T'' @ padStart2 (showNat hours) @ '':''
         @ padStart2 (showNat minutes) @ '':'' @ padStart2 (showNat seconds))"

definition addMonths :: "JsDate \<Rightarrow> int \<Rightarrow> JsDate option" where
  \<comment> \<open>\<^verbatim>\<open>setMonth(getMonth() + months)\<close>\<close>
  "addMonths date months = mkDate (d_year date) (d_month date + months) (d_day date) (d_ms date)"

definition addDays :: "JsDate \<Rightarrow> int \<Rightarrow> JsDate option" where
  \<comment> \<open>\<^verbatim>\<open>setDate(getDate() + days)\<close>\<close>
  "addDays date days = mkDate (d_year date) (d_month date) (d_day date + days) (d_ms date)"

definition addYear :: "JsDate \<Rightarrow> JsDate option" where
  \<comment> \<open>\<^verbatim>\<open>setFullYear(getFullYear() + 1)\<close>\<close>
  "addYear date = mkDate (d_year date + 1) (d_month date) (d_day date) (d_ms date)"

definition monthShort :: "int \<Rightarrow> string" where
  "monthShort m = [''Jan'', ''Feb'', ''Mar'', ''Apr'', ''May'', ''Jun'',
                   ''Jul'', ''Aug'', ''Sep'', ''Oct'', ''Nov'', ''Dec''] ! nat m"

definition formatDateObj :: "JsDate option \<Rightarrow> string" where
  \<comment> \<open>\<^verbatim>\<open>formatDate\<close> of a \<^verbatim>\<open>Date\<close>: the en-US form "Jan 1, 2024", or "N/A".\<close>
  "formatDateObj date =
     (case date of
        None \<Rightarrow> ''N/A''
      | Some d \<Rightarrow> monthShort (d_month d) @ '' '' @ showInt (d_day d) @ '', '' @ showInt (d_year d))"

definition formatDate :: "(string \<Rightarrow> JsDate option) \<Rightarrow> string option \<Rightarrow> string" where
  \<comment> \<open>\<^verbatim>\<open>formatDate\<close> of a string\<close>
  "formatDate host date = (if \<not> truthy date then ''N/A'' else formatDateObj (parseDate host date))"

section \<open>Data model (types.ts, in src/unnamed/part_009)\<close>

text \<open>
  Every interface is a record; its fields carry a prefix, because several interfaces
  share field names (\<^verbatim>\<open>id\<close>, \<^verbatim>\<open>name\<close>, \<^verbatim>\<open>status\<close>, ...).
\<close>

datatype RecordType = Member | WalkIn

datatype RecordStatus = Pending | Confirmed | Cancelled

datatype PendingAction = ActPayment | ActUnfreeze | ActCheckIn | ActCheckout

datatype PlanType = PtMember | PtWalkIn | PtCoach | PtClass

datatype HistoryEntryType = StatusChange | Payment | SessionUpdate | Note

record MemberHistoryEntry =
  he_timestamp :: string
  he_type :: HistoryEntryType
  he_title :: string
  he_details :: "string option"
  he_paymentAmount :: "rat option"

record PricePlan =
  pp_id :: string
  pp_name :: string
  pp_amount :: rat
  pp_type :: PlanType

record PaymentDetails =
  pd_plan :: string
  pd_amount :: rat

record PurchasedItem =
  it_itemId :: string
  it_productId :: string
  it_name :: string
  it_quantity :: rat
  it_price :: rat

record SessionPlanDetails =
  spd_name :: string
  spd_total :: int

record SessionPlan =
  sp_name :: string
  sp_total :: int
  sp_used :: int
  sp_lastSessionUsedDate :: "string option"

record WalkinClient =
  wc_id :: string
  wc_name :: string
  wc_contactNumber :: string
  wc_photoUrl :: "string option"
  wc_lastVisit :: string
  wc_sessionPlan :: "SessionPlan option"
  wc_history :: "MemberHistoryEntry list option"

record CheckinRecord =
  cr_id :: string
  cr_timestamp :: string
  cr_type :: RecordType
  cr_name :: string
  cr_gymNumber :: "string option"
  cr_photoUrl :: "string option"
  cr_amountPaid :: rat
  cr_status :: RecordStatus
  cr_needsCoach :: bool
  cr_coachAssigned :: "string option"
  cr_paymentDetails :: "PaymentDetails option"
  cr_balance :: rat
  cr_amountDue :: rat
  cr_checkoutTimestamp :: "string option"
  cr_cancellationReason :: "string option"
  cr_pendingAction :: "PendingAction option"
  cr_productsPurchased :: "PurchasedItem list option"
  cr_balanceDueDate :: "string option"
  cr_walkinClientId :: "string option"
  cr_isNewWalkin :: "bool option"
  cr_contactNumber :: "string option"
  cr_className :: "string option"
  cr_sessionPlanDetails :: "SessionPlanDetails option"
  cr_carriedOverBalance :: "rat option"
  cr_sessionCompleted :: "bool option"

text \<open>
  The draft handed to \<^verbatim>\<open>addCheckinRecord\<close> is a record without \<^verbatim>\<open>id\<close> and
  \<^verbatim>\<open>timestamp\<close>. The kiosk builds drafts that leave \<^verbatim>\<open>amountDue\<close> and
  \<^verbatim>\<open>balance\<close> out (cast with \<^verbatim>\<open>as CheckinRecord\<close>), and the function reads the three
  amounts with \<^verbatim>\<open>??\<close>, so they are optional here: \<open>None\<close> is a key that is absent.
\<close>

record CheckinDraft =
  dr_type :: RecordType
  dr_name :: string
  dr_gymNumber :: "string option"
  dr_photoUrl :: "string option"
  dr_amountPaid :: "rat option"
  dr_status :: RecordStatus
  dr_needsCoach :: bool
  dr_coachAssigned :: "string option"
  dr_paymentDetails :: "PaymentDetails option"
  dr_balance :: "rat option"
  dr_amountDue :: "rat option"
  dr_checkoutTimestamp :: "string option"
  dr_cancellationReason :: "string option"
  dr_pendingAction :: "PendingAction option"
  dr_productsPurchased :: "PurchasedItem list option"
  dr_balanceDueDate :: "string option"
  dr_walkinClientId :: "string option"
  dr_isNewWalkin :: "bool option"
  dr_contactNumber :: "string option"
  dr_className :: "string option"
  dr_sessionPlanDetails :: "SessionPlanDetails option"
  dr_carriedOverBalance :: "rat option"
  dr_sessionCompleted :: "bool option"

text \<open>
  \<^verbatim>\<open>Partial<Omit<CheckinRecord, 'id'>>\<close>: every field may be absent (\<open>None\<close>); a field
  that is present overrides the record's, also with \<^verbatim>\<open>undefined\<close> where the field is
  optional (\<open>Some None\<close>).
\<close>

record CheckinUpdates =
  up_timestamp :: "string option"
  up_type :: "RecordType option"
  up_name :: "string option"
  up_gymNumber :: "string option option"
  up_photoUrl :: "string option option"
  up_amountPaid :: "rat option"
  up_status :: "RecordStatus option"
  up_needsCoach :: "bool option"
  up_coachAssigned :: "string option option"
  up_paymentDetails :: "PaymentDetails option option"
  up_balance :: "rat option"
  up_amountDue :: "rat option"
  up_checkoutTimestamp :: "string option option"
  up_cancellationReason :: "string option option"
  up_pendingAction :: "PendingAction option option"
  up_productsPurchased :: "PurchasedItem list option option"
  up_balanceDueDate :: "string option option"
  up_walkinClientId :: "string option option"
  up_isNewWalkin :: "bool option option"
  up_contactNumber :: "string option option"
  up_className :: "string option option"
  up_sessionPlanDetails :: "SessionPlanDetails option option"
  up_carriedOverBalance :: "rat option option"
  up_sessionCompleted :: "bool option option"

text \<open>
  \<^verbatim>\<open>dueDate\<close> is declared a string, and the ledger tests it for absence
  (\<^verbatim>\<open>!updatedMember.dueDate\<close>); it is optional here, and absent also when empty.
\<close>

record Member =
  mb_id :: string
  mb_name :: string
  mb_photoUrl :: "string option"
  mb_status :: string
  mb_membershipType :: string
  mb_details :: string
  mb_hasCoach :: bool
  mb_coachName :: "string option"
  mb_trainingType :: "string option"
  mb_membershipStartDate :: string
  mb_subscriptionStartDate :: "string option"
  mb_lastPaymentDate :: string
  mb_dueDate :: "string option"
  mb_totalSessions :: "int option"
  mb_sessionsUsed :: "int option"
  mb_daysRemainingOnFreeze :: "int option"
  mb_coachPlanId :: "string option"
  mb_sessionExpiryDate :: "string option"
  mb_membershipFeeLastPaid :: "string option"
  mb_membershipFeeDueDate :: "string option"
  mb_lockerStartDate :: "string option"
  mb_lockerDueDate :: "string option"
  mb_classId :: "string option"
  mb_className :: "string option"
  mb_history :: "MemberHistoryEntry list option"

record NewProduct =
  np_productId :: string
  np_name :: string
  np_quantity :: rat
  np_price :: rat

section \<open>Walk-in client ledger (useWalkinClients, in src/hooks/useTasks.ts)\<close>






text \<open>
  The check-in hook receives three operations of this ledger as callbacks. Their calls
  are collected as commands, in the order in which the source makes them.
\<close>

datatype WalkinCmd =
    AddWalkinClient string string "string option" string "SessionPlan option"
  | UpdateWalkinClient WalkinClient
  | UpdateWalkinClientSessionPlan string "SessionPlan option"

definition newWalkinClientId :: "clock \<Rightarrow> string" where
  \<comment> \<open>The id \<^verbatim>\<open>addWalkinClient\<close> gives the client it returns.\<close>
  "newWalkinClientId ck = ''walkin-'' @ showNat (ck_nowMs ck)"

section \<open>Check-in record ledger (useCheckins, in src/hooks/useTasks.ts)\<close>

subsection \<open>addCheckinRecord\<close>

definition clientIdOf :: "CheckinDraft \<Rightarrow> string option" where
  "clientIdOf recordData =
     (if dr_type recordData = Member then dr_gymNumber recordData else dr_walkinClientId recordData)"

definition clientIdentifier :: "CheckinDraft \<Rightarrow> CheckinRecord \<Rightarrow> string option" where
  \<comment> \<open>\<^verbatim>\<open>r[clientIdentifierKey]\<close>\<close>
  "clientIdentifier recordData r =
     (if dr_type recordData = Member then cr_gymNumber r else cr_walkinClientId r)"

definition carriesBalance :: "CheckinDraft \<Rightarrow> CheckinRecord \<Rightarrow> bool" where
  \<comment> \<open>The test of the scanning loop, under its guard \<^verbatim>\<open>if (clientId)\<close>.\<close>
  "carriesBalance recordData r =
     (truthy (clientIdOf recordData)
      \<and> clientIdentifier recordData r = clientIdOf recordData
      \<and> cr_balance r > 0 \<and> truthy (cr_checkoutTimestamp r))"

definition totalPreviousBalance :: "CheckinDraft \<Rightarrow> CheckinRecord list \<Rightarrow> rat" where
  "totalPreviousBalance recordData prevRecords =
     sum_list (map cr_balance (filter (carriesBalance recordData) prevRecords))"

definition recordIdsWithBalance :: "CheckinDraft \<Rightarrow> CheckinRecord list \<Rightarrow> string set" where
  "recordIdsWithBalance recordData prevRecords =
     set (map cr_id (filter (carriesBalance recordData) prevRecords))"

definition pdAmount :: "PaymentDetails option \<Rightarrow> rat" where
  \<comment> \<open>\<^verbatim>\<open>paymentDetails?.amount ?? 0\<close> (and \<^verbatim>\<open>|| 0\<close>, the same on exact numbers)\<close>
  "pdAmount pd = (case pd of None \<Rightarrow> 0 | Some x \<Rightarrow> pd_amount x)"

definition orZero :: "rat option \<Rightarrow> rat" where
  "orZero x = (case x of None \<Rightarrow> 0 | Some v \<Rightarrow> v)"

definition baseRecord :: "clock \<Rightarrow> CheckinDraft \<Rightarrow> CheckinRecord" where
  "baseRecord ck recordData =
     \<lparr>cr_id = ''rec-'' @ showNat (ck_nowMs ck),
      cr_timestamp = getLocalISOString ck,
      cr_type = dr_type recordData,
      cr_name = dr_name recordData,
      cr_gymNumber = dr_gymNumber recordData,
      cr_photoUrl = dr_photoUrl recordData,
      cr_amountPaid = orZero (dr_amountPaid recordData),
      cr_status = dr_status recordData,
      cr_needsCoach = dr_needsCoach recordData,
      cr_coachAssigned = dr_coachAssigned recordData,
      cr_paymentDetails = dr_paymentDetails recordData,
      cr_balance = (case dr_balance recordData of
                      Some b \<Rightarrow> b
                    | None \<Rightarrow> pdAmount (dr_paymentDetails recordData)
                                - orZero (dr_amountPaid recordData)),
      cr_amountDue = (case dr_amountDue recordData of
                        Some a \<Rightarrow> a
                      | None \<Rightarrow> pdAmount (dr_paymentDetails recordData)),
      cr_checkoutTimestamp = dr_checkoutTimestamp recordData,
      cr_cancellationReason = dr_cancellationReason recordData,
      cr_pendingAction = dr_pendingAction recordData,
      cr_productsPurchased = dr_productsPurchased recordData,
      cr_balanceDueDate = dr_balanceDueDate recordData,
      cr_walkinClientId = dr_walkinClientId recordData,
      cr_isNewWalkin = dr_isNewWalkin recordData,
      cr_contactNumber = dr_contactNumber recordData,
      cr_className = dr_className recordData,
      cr_sessionPlanDetails = dr_sessionPlanDetails recordData,
      cr_carriedOverBalance = dr_carriedOverBalance recordData,
      cr_sessionCompleted = dr_sessionCompleted recordData\<rparr>"

definition recordWithBalance :: "rat \<Rightarrow> CheckinRecord \<Rightarrow> CheckinRecord" where
  "recordWithBalance totalPrev base =
     (if totalPrev > 0 then
        base\<lparr>cr_carriedOverBalance := Some totalPrev,
             cr_amountDue := cr_amountDue base + totalPrev,
             cr_balance := cr_balance base + totalPrev,
             cr_paymentDetails :=
               (case cr_paymentDetails base of
                  None \<Rightarrow> None
                | Some existingPaymentDetails \<Rightarrow>
                    Some (existingPaymentDetails\<lparr>pd_plan :=
                      pd_plan existingPaymentDetails @ '' (+'' @ peso @ toFixed2 totalPrev
                      @ '' prev bal)''\<rparr>))\<rparr>
      else base)"

definition newRecord :: "CheckinDraft \<Rightarrow> CheckinRecord \<Rightarrow> CheckinRecord" where
  \<comment> \<open>The third stage; \<^verbatim>\<open>!('amountDue' in recordData)\<close> is the absent key.\<close>
  "newRecord recordData rwb =
     (if cr_status rwb = Pending \<and> dr_amountDue recordData = None then
        (let dueAmount = pdAmount (cr_paymentDetails rwb)
         in rwb\<lparr>cr_amountDue := dueAmount + orZero (cr_carriedOverBalance rwb),
                cr_amountPaid := 0,
                cr_balance := dueAmount + orZero (cr_carriedOverBalance rwb)\<rparr>)
      else rwb)"

definition addCheckinRecord :: "clock \<Rightarrow> CheckinDraft \<Rightarrow> CheckinRecord list \<Rightarrow> CheckinRecord list" where
  "addCheckinRecord ck recordData prevRecords =
     newRecord recordData
       (recordWithBalance (totalPreviousBalance recordData prevRecords) (baseRecord ck recordData))
     # map (\<lambda>r. if cr_id r \<in> recordIdsWithBalance recordData prevRecords
                 then r\<lparr>cr_balance := 0\<rparr> else r) prevRecords"

subsection \<open>confirmPendingRecord, assignCoachToRecord, cancelPendingRecord\<close>

definition ov :: "'a option \<Rightarrow> 'a \<Rightarrow> 'a" where
  \<comment> \<open>A field of the record after \<^verbatim>\<open>{ ...r, ...updates }\<close>\<close>
  "ov u v = (case u of None \<Rightarrow> v | Some w \<Rightarrow> w)"

definition applyUpdates :: "CheckinRecord \<Rightarrow> CheckinUpdates option \<Rightarrow> CheckinRecord" where
  "applyUpdates r updates =
     (case updates of
        None \<Rightarrow> r
      | Some u \<Rightarrow>
         \<lparr>cr_id = cr_id r,
          cr_timestamp = ov (up_timestamp u) (cr_timestamp r),
          cr_type = ov (up_type u) (cr_type r),
          cr_name = ov (up_name u) (cr_name r),
          cr_gymNumber = ov (up_gymNumber u) (cr_gymNumber r),
          cr_photoUrl = ov (up_photoUrl u) (cr_photoUrl r),
          cr_amountPaid = ov (up_amountPaid u) (cr_amountPaid r),
          cr_status = ov (up_status u) (cr_status r),
          cr_needsCoach = ov (up_needsCoach u) (cr_needsCoach r),
          cr_coachAssigned = ov (up_coachAssigned u) (cr_coachAssigned r),
          cr_paymentDetails = ov (up_paymentDetails u) (cr_paymentDetails r),
          cr_balance = ov (up_balance u) (cr_balance r),
          cr_amountDue = ov (up_amountDue u) (cr_amountDue r),
          cr_checkoutTimestamp = ov (up_checkoutTimestamp u) (cr_checkoutTimestamp r),
          cr_cancellationReason = ov (up_cancellationReason u) (cr_cancellationReason r),
          cr_pendingAction = ov (up_pendingAction u) (cr_pendingAction r),
          cr_productsPurchased = ov (up_productsPurchased u) (cr_productsPurchased r),
          cr_balanceDueDate = ov (up_balanceDueDate u) (cr_balanceDueDate r),
          cr_walkinClientId = ov (up_walkinClientId u) (cr_walkinClientId r),
          cr_isNewWalkin = ov (up_isNewWalkin u) (cr_isNewWalkin r),
          cr_contactNumber = ov (up_contactNumber u) (cr_contactNumber r),
          cr_className = ov (up_className u) (cr_className r),
          cr_sessionPlanDetails = ov (up_sessionPlanDetails u) (cr_sessionPlanDetails r),
          cr_carriedOverBalance = ov (up_carriedOverBalance u) (cr_carriedOverBalance r),
          cr_sessionCompleted = ov (up_sessionCompleted u) (cr_sessionCompleted r)\<rparr>)"

definition strOrEmpty :: "string option \<Rightarrow> string" where
  \<comment> \<open>\<^verbatim>\<open>s || ''\<close>\<close>
  "strOrEmpty s = (case s of None \<Rightarrow> [] | Some t \<Rightarrow> t)"

definition confirmOne :: "clock \<Rightarrow> CheckinUpdates option \<Rightarrow> CheckinRecord \<Rightarrow> CheckinRecord \<times> WalkinCmd list" where
  \<comment> \<open>The \<^verbatim>\<open>map\<close> callback of \<^verbatim>\<open>confirmPendingRecord\<close> for a record whose id matches.\<close>
  "confirmOne ck updates r =
     (let updatedRecord = applyUpdates r updates;
          sessionPlan =
            (case cr_sessionPlanDetails updatedRecord of
               None \<Rightarrow> None
             | Some spd \<Rightarrow> Some \<lparr>sp_name = spd_name spd, sp_total = spd_total spd, sp_used = 0,
                                 sp_lastSessionUsedDate = None\<rparr>);
          walkin =
            (if cr_isNewWalkin updatedRecord = Some True then
               (if truthy (cr_walkinClientId updatedRecord) then
                  (updatedRecord\<lparr>cr_isNewWalkin := Some False\<rparr>,
                   UpdateWalkinClient
                     \<lparr>wc_id = the (cr_walkinClientId updatedRecord),
                      wc_name = cr_name updatedRecord,
                      wc_contactNumber = strOrEmpty (cr_contactNumber updatedRecord),
                      wc_photoUrl = cr_photoUrl updatedRecord,
                      wc_lastVisit = getTodayYMD ck,
                      wc_sessionPlan = None, wc_history = None\<rparr>
                   # (if sessionPlan \<noteq> None
                      then [UpdateWalkinClientSessionPlan (the (cr_walkinClientId updatedRecord))
                              sessionPlan]
                      else []))
                else
                  (updatedRecord\<lparr>cr_walkinClientId := Some (newWalkinClientId ck),
                                 cr_isNewWalkin := Some False\<rparr>,
                   [AddWalkinClient (cr_name updatedRecord)
                      (strOrEmpty (cr_contactNumber updatedRecord))
                      (cr_photoUrl updatedRecord) (getTodayYMD ck) sessionPlan]))
             else (updatedRecord, []))
      in ((fst walkin)\<lparr>cr_status := Confirmed, cr_pendingAction := None\<rparr>, snd walkin))"

definition confirmPendingRecord ::
  "clock \<Rightarrow> string \<Rightarrow> CheckinUpdates option \<Rightarrow> CheckinRecord list
   \<Rightarrow> CheckinRecord list \<times> WalkinCmd list" where
  "confirmPendingRecord ck recId updates prev =
     (map (\<lambda>r. if cr_id r \<noteq> recId then r else fst (confirmOne ck updates r)) prev,
      concat (map (\<lambda>r. if cr_id r \<noteq> recId then [] else snd (confirmOne ck updates r)) prev))"

definition assignCoachToRecord :: "string \<Rightarrow> string \<Rightarrow> CheckinRecord list \<Rightarrow> CheckinRecord list" where
  "assignCoachToRecord recordId coachName prev =
     map (\<lambda>r. if cr_id r = recordId then r\<lparr>cr_coachAssigned := Some coachName\<rparr> else r) prev"

definition cancelPendingRecord :: "string \<Rightarrow> string \<Rightarrow> CheckinRecord list \<Rightarrow> CheckinRecord list" where
  "cancelPendingRecord recId reason prev =
     map (\<lambda>r. if cr_id r = recId
               then r\<lparr>cr_status := Cancelled, cr_cancellationReason := Some reason\<rparr> else r) prev"

subsection \<open>Checkout\<close>

definition checkoutBlocked :: "string \<Rightarrow> string option \<Rightarrow> CheckinRecord list \<Rightarrow> CheckinRecord option" where
  \<comment> \<open>The record on which \<^verbatim>\<open>confirmCheckout\<close> raises its alert, if any.\<close>
  "checkoutBlocked recordId balanceDueDate prev =
     (case find (\<lambda>r. cr_id r = recordId) prev of
        None \<Rightarrow> None
      | Some record \<Rightarrow>
          if cr_pendingAction record = Some ActCheckout \<and> cr_balance record > 0
             \<and> \<not> truthy balanceDueDate
          then Some record else None)"

definition checkoutAlert :: "CheckinRecord \<Rightarrow> string" where
  "checkoutAlert record =
     ''Cannot confirm checkout for '' @ cr_name record @ ''. An outstanding balance of ''
     @ peso @ toFixed2 (cr_balance record)
     @ '' must be settled first or a future payment date must be set.''"

definition confirmCheckout ::
  "clock \<Rightarrow> string \<Rightarrow> string option \<Rightarrow> CheckinRecord list \<Rightarrow> CheckinRecord list \<times> string option" where
  \<comment> \<open>The second component is the text of the alert, when one is raised.\<close>
  "confirmCheckout ck recordId balanceDueDate prev =
     (case checkoutBlocked recordId balanceDueDate prev of
        Some record \<Rightarrow> (prev, Some (checkoutAlert record))
      | None \<Rightarrow>
          (map (\<lambda>r. if cr_id r = recordId \<and> cr_pendingAction r = Some ActCheckout
                     then r\<lparr>cr_pendingAction := None,
                            cr_checkoutTimestamp := Some (getLocalISOString ck),
                            cr_balanceDueDate := orElse balanceDueDate (cr_balanceDueDate r)\<rparr>
                     else r) prev,
           None))"

definition cancelPendingCheckout :: "string \<Rightarrow> CheckinRecord list \<Rightarrow> CheckinRecord list" where
  "cancelPendingCheckout recordId prev =
     map (\<lambda>r. if cr_id r = recordId \<and> cr_pendingAction r = Some ActCheckout
               then r\<lparr>cr_pendingAction := None\<rparr> else r) prev"


subsection \<open>Charges and payments\<close>

text \<open>
  An item id is \<^verbatim>\<open>item-${Date.now()}-${Math.random()}\<close>; \<open>rnd k\<close> is the text of the
  random number drawn for the \<open>k\<close>-th item of the operation.
\<close>

definition freshItemId :: "clock \<Rightarrow> (nat \<Rightarrow> string) \<Rightarrow> nat \<Rightarrow> string" where
  "freshItemId ck rnd k = ''item-'' @ showNat (ck_nowMs ck) @ ''-'' @ rnd k"

definition purchased :: "PurchasedItem list option \<Rightarrow> PurchasedItem list" where
  \<comment> \<open>\<^verbatim>\<open>r.productsPurchased || []\<close>\<close>
  "purchased ps = (case ps of None \<Rightarrow> [] | Some xs \<Rightarrow> xs)"

definition addCheckoutRecord ::
  "clock \<Rightarrow> (nat \<Rightarrow> string) \<Rightarrow> string \<Rightarrow> NewProduct list \<Rightarrow> rat \<Rightarrow> CheckinRecord list
   \<Rightarrow> CheckinRecord list" where
  "addCheckoutRecord ck rnd recordId products tot prev =
     map (\<lambda>r. if cr_id r = recordId then
                 (let productsWithId =
                        map (\<lambda>(k, p). \<lparr>it_itemId = freshItemId ck rnd k,
                                        it_productId = np_productId p, it_name = np_name p,
                                        it_quantity = np_quantity p, it_price = np_price p\<rparr>)
                            (enumerate 0 products)
                  in r\<lparr>cr_productsPurchased := Some (purchased (cr_productsPurchased r) @ productsWithId),
                        cr_amountDue := cr_amountDue r + tot,
                        cr_balance := cr_balance r + tot\<rparr>)
               else r) prev"

definition addPaymentToRecord ::
  "string \<Rightarrow> rat \<Rightarrow> string option \<Rightarrow> CheckinRecord list \<Rightarrow> CheckinRecord list" where
  "addPaymentToRecord recordId paymentAmount newBalanceDueDate prev =
     map (\<lambda>r. if cr_id r = recordId then
                 (let newAmountPaid = cr_amountPaid r + paymentAmount;
                      newBalance = cr_balance r - paymentAmount
                  in r\<lparr>cr_amountPaid := newAmountPaid,
                        cr_balance := newBalance,
                        cr_balanceDueDate := (if newBalance > 0 then newBalanceDueDate else None)\<rparr>)
               else r) prev"

definition processPayment ::
  "string \<Rightarrow> rat \<Rightarrow> string list \<Rightarrow> string option \<Rightarrow> CheckinRecord list \<Rightarrow> CheckinRecord list" where
  "processPayment recordId paymentAmount settledProductIds newBalanceDueDate prev =
     map (\<lambda>r. if cr_id r \<noteq> recordId then r
               else
                 (let newAmountPaid = cr_amountPaid r + paymentAmount;
                      newBalance = cr_balance r - paymentAmount;
                      newProductsPurchased =
                        map_option (filter (\<lambda>p. it_productId p \<notin> set settledProductIds))
                                   (cr_productsPurchased r)
                  in r\<lparr>cr_amountPaid := newAmountPaid,
                        cr_balance := newBalance,
                        cr_productsPurchased := newProductsPurchased,
                        cr_balanceDueDate := (if newBalance > 0 then newBalanceDueDate else None)\<rparr>))
         prev"

definition sumAmounts :: "PricePlan list \<Rightarrow> rat" where
  \<comment> \<open>\<^verbatim>\<open>plans.reduce((sum, plan) => sum + plan.amount, 0)\<close>\<close>
  "sumAmounts plans = foldl (\<lambda>acc plan. acc + pp_amount plan) 0 plans"

definition planItems :: "clock \<Rightarrow> (nat \<Rightarrow> string) \<Rightarrow> PricePlan list \<Rightarrow> PurchasedItem list" where
  "planItems ck rnd plans =
     map (\<lambda>(k, p). \<lparr>it_itemId = freshItemId ck rnd k, it_productId = pp_id p,
                     it_name = pp_name p, it_quantity = 1, it_price = pp_amount p\<rparr>)
         (enumerate 0 plans)"

definition addPlansToRecordTab ::
  "clock \<Rightarrow> (nat \<Rightarrow> string) \<Rightarrow> string \<Rightarrow> PricePlan list \<Rightarrow> CheckinRecord list \<Rightarrow> CheckinRecord list" where
  "addPlansToRecordTab ck rnd recordId plans prev =
     map (\<lambda>r. if cr_id r \<noteq> recordId then r
               else
                 (let totalAmount = sumAmounts plans;
                      newProducts = planItems ck rnd plans;
                      hasCoachPlan = list_ex (\<lambda>p. pp_type p = PtCoach) plans
                  in r\<lparr>cr_productsPurchased := Some (purchased (cr_productsPurchased r) @ newProducts),
                        cr_amountDue := cr_amountDue r + totalAmount,
                        cr_balance := cr_balance r + totalAmount,
                        cr_needsCoach := (cr_needsCoach r \<or> hasCoachPlan)\<rparr>))
         prev"

definition removeItemFromRecord :: "string \<Rightarrow> string \<Rightarrow> CheckinRecord list \<Rightarrow> CheckinRecord list" where
  "removeItemFromRecord recordId itemId prev =
     map (\<lambda>r. if cr_id r \<noteq> recordId \<or> cr_productsPurchased r = None then r
               else
                 (case find (\<lambda>p. it_itemId p = itemId) (purchased (cr_productsPurchased r)) of
                    None \<Rightarrow> r
                  | Some itemToRemove \<Rightarrow>
                      (let priceToSubtract = it_price itemToRemove * it_quantity itemToRemove;
                           newProductsPurchased =
                             filter (\<lambda>p. it_itemId p \<noteq> itemId) (purchased (cr_productsPurchased r));
                           newBalance = cr_balance r - priceToSubtract
                       in r\<lparr>cr_productsPurchased := Some newProductsPurchased,
                             cr_amountDue := cr_amountDue r - priceToSubtract,
                             cr_balance := newBalance,
                             cr_balanceDueDate :=
                               (if newBalance > 0 then cr_balanceDueDate r else None)\<rparr>)))
         prev"

definition paymentDetailsString :: "PaymentDetails option \<Rightarrow> string \<Rightarrow> string" where
  \<comment> \<open>\<^verbatim>\<open>[r.paymentDetails?.plan, planNames].filter(Boolean).join(' + ')\<close>\<close>
  "paymentDetailsString pd planNames =
     joinPlus (filter (\<lambda>x. x \<noteq> [])
                 ((case pd of None \<Rightarrow> [] | Some x \<Rightarrow> [pd_plan x]) @ [planNames]))"


definition addPartialDuesPaymentToRecord ::
  "string \<Rightarrow> PricePlan list \<Rightarrow> rat \<Rightarrow> string \<Rightarrow> CheckinRecord list \<Rightarrow> CheckinRecord list" where
  "addPartialDuesPaymentToRecord recordId plans paymentAmount dueDate prev =
     map (\<lambda>r. if cr_id r = recordId then
                 (let totalDues = sumAmounts plans;
                      planNames = joinPlus (map (\<lambda>p. ''Due: '' @ pp_name p) plans);
                      newPaymentDetailsString = paymentDetailsString (cr_paymentDetails r) planNames
                  in r\<lparr>cr_paymentDetails :=
                          Some \<lparr>pd_plan = newPaymentDetailsString,
                                pd_amount = pdAmount (cr_paymentDetails r) + totalDues\<rparr>,
                        cr_amountDue := cr_amountDue r + totalDues,
                        cr_amountPaid := cr_amountPaid r + paymentAmount,
                        cr_balance := cr_balance r + totalDues - paymentAmount,
                        cr_balanceDueDate := Some dueDate\<rparr>)
               else r) prev"

definition markRecordSessionCompleted :: "string \<Rightarrow> CheckinRecord list \<Rightarrow> CheckinRecord list" where
  "markRecordSessionCompleted recordId prev =
     map (\<lambda>r. if cr_id r = recordId then r\<lparr>cr_sessionCompleted := Some True\<rparr> else r) prev"



section \<open>Member ledger (useMembers, in src/unnamed/part_000)\<close>

definition addHistoryEntry ::
  "clock \<Rightarrow> Member \<Rightarrow> HistoryEntryType \<Rightarrow> string \<Rightarrow> string option \<Rightarrow> rat option \<Rightarrow> Member" where
  "addHistoryEntry ck member ty title details paymentAmount =
     (let newEntry = \<lparr>he_timestamp = getLocalISOString ck, he_type = ty, he_title = title,
                       he_details = details, he_paymentAmount = paymentAmount\<rparr>
      in member\<lparr>mb_history :=
           Some (newEntry # (case mb_history member of None \<Rightarrow> [] | Some h \<Rightarrow> h))\<rparr>)"

definition intOrZero :: "int option \<Rightarrow> int" where
  \<comment> \<open>\<^verbatim>\<open>n || 0\<close> and \<^verbatim>\<open>n ?? 0\<close> on a session count\<close>
  "intOrZero n = (case n of None \<Rightarrow> 0 | Some v \<Rightarrow> v)"










definition planInterval :: "string \<Rightarrow> (JsDate \<Rightarrow> JsDate option) option" where
  \<comment> \<open>The chain that sets \<^verbatim>\<open>newDueDate\<close> and \<^verbatim>\<open>isRenewal\<close>: the calendar interval of a
      renewal plan, \<open>None\<close> when the name is no renewal.\<close>
  "planInterval planNameLower =
     (if includesStr planNameLower ''yearly'' then Some addYear
      else if includesStr planNameLower ''6 months'' then Some (\<lambda>d. addMonths d 6)
      else if includesStr planNameLower ''3 months'' then Some (\<lambda>d. addMonths d 3)
      else if includesStr planNameLower ''no mf'' then Some (\<lambda>d. addMonths d 1)
      else if includesStr planNameLower ''monthly'' then Some (\<lambda>d. addMonths d 1)
      else if includesStr planNameLower ''daily'' then Some (\<lambda>d. addDays d 1)
      else None)"

definition newMembershipType :: "string \<Rightarrow> string \<Rightarrow> string" where
  "newMembershipType planNameLower old =
     (if includesStr planNameLower ''yearly'' \<or> includesStr planNameLower ''6 months''
         \<or> includesStr planNameLower ''3 months'' then old
      else if includesStr planNameLower ''no mf'' then ''NO MF'' else old)"

definition renewed :: "clock \<Rightarrow> Member \<Rightarrow> string \<Rightarrow> JsDate \<Rightarrow> JsDate option \<Rightarrow> Member" where
  \<comment> \<open>The fields a renewal writes.\<close>
  "renewed ck m planNameLower startDateForNewPeriod newDueDate =
     m\<lparr>mb_status := ''Active'',
       mb_lastPaymentDate := getTodayYMD ck,
       mb_subscriptionStartDate := Some (formatToYMD (Some startDateForNewPeriod)),
       mb_dueDate := Some (formatToYMD newDueDate),
       mb_membershipType := newMembershipType planNameLower (mb_membershipType m)\<rparr>"





definition sessionLeft :: "string \<Rightarrow> Member \<Rightarrow> bool" where
  \<comment> \<open>The two tests of \<^verbatim>\<open>useSession\<close> under which a session is consumed.\<close>
  "sessionLeft memberId m =
     (mb_id m = memberId \<and> mb_hasCoach m
      \<and> intOrZero (mb_sessionsUsed m) < intOrZero (mb_totalSessions m))"

definition useSession :: "clock \<Rightarrow> string \<Rightarrow> Member list \<Rightarrow> Member list \<times> bool" where
  \<comment> \<open>The second component is the captured \<^verbatim>\<open>success\<close>.\<close>
  "useSession ck memberId prev =
     (map (\<lambda>m. if sessionLeft memberId m then
                  (let sessionsUsed = intOrZero (mb_sessionsUsed m);
                       totalSessions = intOrZero (mb_totalSessions m);
                       updatedMember = m\<lparr>mb_sessionsUsed := Some (sessionsUsed + 1)\<rparr>
                   in addHistoryEntry ck updatedMember SessionUpdate ''Session Used''
                        (Some (''1 session used. '' @ showInt (totalSessions - (sessionsUsed + 1))
                               @ '' remaining.'')) None)
                else m) prev,
      list_ex (sessionLeft memberId) prev)"

datatype MessageType = MsgSuccess | MsgError | MsgInfo

definition markSessionMember ::
  "(string \<Rightarrow> JsDate option) \<Rightarrow> clock \<Rightarrow> Member \<Rightarrow> Member option \<times> MessageType \<times> string" where
  \<comment> \<open>The branches of \<^verbatim>\<open>markSessionComplete\<close> for the member found: the final member
      state, if one is stored, and the message.\<close>
  "markSessionMember host ck member =
     (if truthy (mb_sessionExpiryDate member) \<and> isPastOrToday host ck (mb_sessionExpiryDate member)
      then
        (if toLowerCase (mb_status member) \<noteq> ''inactive''
         then Some (addHistoryEntry ck
                      (member\<lparr>mb_status := ''Inactive'', mb_totalSessions := Some 0,
                              mb_sessionsUsed := Some 0\<rparr>)
                      StatusChange ''Sessions Expired''
                      (Some (''Coaching sessions expired on ''
                             @ formatDate host (mb_sessionExpiryDate member) @ ''.'')) None)
         else None,
         MsgInfo, mb_name member @ [CHR 0x27]
                  @ ''s sessions have expired. Please ask them to purchase a new package.'')
      else if \<not> mb_hasCoach member \<or> intOrZero (mb_totalSessions member) \<le> 0 then
        (None, MsgError, mb_name member @ '' does not have an active coaching plan.'')
      else if intOrZero (mb_sessionsUsed member) \<ge> intOrZero (mb_totalSessions member) then
        (if toLowerCase (mb_status member) \<noteq> ''sessions''
         then Some (addHistoryEntry ck (member\<lparr>mb_status := ''Sessions''\<rparr>)
                      StatusChange ''Sessions Finished''
                      (Some ''No remaining sessions. Status updated.'') None)
         else None,
         MsgInfo, mb_name member @ '' has no remaining sessions to use.'')
      else
        (let newSessionsUsed = intOrZero (mb_sessionsUsed member) + 1;
             remaining = intOrZero (mb_totalSessions member) - newSessionsUsed;
             isLastSession = (newSessionsUsed \<ge> intOrZero (mb_totalSessions member));
             messageText =
               (if isLastSession
                then mb_name member @ '' has completed all available sessions. ''
                     @ ''Please ask if they would like to renew their package.''
                else ''Session marked as complete for '' @ mb_name member @ ''. ''
                     @ showInt remaining @ '' sessions remaining.'');
             m1 = addHistoryEntry ck (member\<lparr>mb_sessionsUsed := Some newSessionsUsed\<rparr>)
                    SessionUpdate ''Session Marked Complete''
                    (Some (''1 session used. '' @ showInt remaining @ '' remaining.'')) None;
             m2 = (if isLastSession
                   then addHistoryEntry ck (m1\<lparr>mb_status := ''Sessions''\<rparr>) StatusChange
                          ''Sessions Finished''
                          (Some ''Completed all available coaching sessions.'') None
                   else m1)
         in (Some m2, MsgSuccess, messageText)))"

fun findIndex :: "('a \<Rightarrow> bool) \<Rightarrow> 'a list \<Rightarrow> nat option" where
  "findIndex P [] = None"
| "findIndex P (x # xs) =
     (if P x then Some 0 else map_option Suc (findIndex P xs))"

definition markSessionComplete ::
  "(string \<Rightarrow> JsDate option) \<Rightarrow> clock \<Rightarrow> string \<Rightarrow> Member list
   \<Rightarrow> Member list \<times> (MessageType \<times> string)" where
  "markSessionComplete host ck memberId members =
     (case findIndex (\<lambda>m. mb_id m = memberId) members of
        None \<Rightarrow> (members, MsgError, ''Member not found.'')
      | Some memberIndex \<Rightarrow>
          (case markSessionMember host ck (members ! memberIndex) of
             (finalMemberState, message) \<Rightarrow>
               ((case finalMemberState of
                   None \<Rightarrow> members
                 | Some m \<Rightarrow> members[memberIndex := m]),
                message)))"

section \<open>Example data\<close>

definition exampleClock :: clock where
  \<comment> \<open>10 January 2024, 14:30:05 local time\<close>
  "exampleClock = \<lparr>ck_now = \<lparr>d_year = 2024, d_month = 0, d_day = 10, d_ms = 52205000\<rparr>,
                    ck_nowMs = 1704868205000\<rparr>"

definition noHost :: "string \<Rightarrow> JsDate option" where
  \<comment> \<open>An engine whose \<^verbatim>\<open>new Date(string)\<close> gives the invalid date for every string.\<close>
  "noHost s = None"

definition rollingHost :: "string \<Rightarrow> JsDate option" where
  \<comment> \<open>An engine that reads \<^verbatim>\<open>"2024-02-30"\<close> as 1 March 2024, 00:00 UTC, carrying the day
      into the next month as V8 does; the local time zone is UTC+8.\<close>
  "rollingHost s =
     (if s = ''2024-02-30''
      then Some \<lparr>d_year = 2024, d_month = 2, d_day = 1, d_ms = 28800000\<rparr> else None)"

definition openTab :: CheckinRecord where
  \<comment> \<open>A confirmed visit of member G-0001 with an unpaid tab of 500.\<close>
  "openTab =
     \<lparr>cr_id = ''rec-1'', cr_timestamp = ''2024-01-10T09:00:00'', cr_type = Member,
      cr_name = ''Juan'', cr_gymNumber = Some ''G-0001'', cr_photoUrl = None,
      cr_amountPaid = 0, cr_status = Confirmed, cr_needsCoach = False,
      cr_coachAssigned = None, cr_paymentDetails = None, cr_balance = 500,
      cr_amountDue = 500, cr_checkoutTimestamp = None, cr_cancellationReason = None,
      cr_pendingAction = None, cr_productsPurchased = None, cr_balanceDueDate = None,
      cr_walkinClientId = None, cr_isNewWalkin = None, cr_contactNumber = None,
      cr_className = None, cr_sessionPlanDetails = None, cr_carriedOverBalance = None,
      cr_sessionCompleted = None\<rparr>"

definition pendingCheckoutTab :: CheckinRecord where
  \<comment> \<open>The same visit after the client has asked to check out.\<close>
  "pendingCheckoutTab = openTab\<lparr>cr_pendingAction := Some ActCheckout\<rparr>"

definition settledLater :: CheckinRecord where
  \<comment> \<open>The same visit, 300 paid, checked out with 200 to be paid by 1 March.\<close>
  "settledLater = openTab\<lparr>cr_amountPaid := 300, cr_balance := 200,
       cr_checkoutTimestamp := Some ''2024-01-10T11:00:00'',
       cr_balanceDueDate := Some ''2024-03-01''\<rparr>"

definition paidUpCheckout :: CheckinRecord where
  \<comment> \<open>A fully paid visit whose checkout has been requested.\<close>
  "paidUpCheckout = openTab\<lparr>cr_amountPaid := 500, cr_balance := 0,
       cr_pendingAction := Some ActCheckout\<rparr>"


definition kioskDraft :: CheckinDraft where
  \<comment> \<open>The draft the kiosk submits for an active member: no \<^verbatim>\<open>amountDue\<close>, no \<^verbatim>\<open>balance\<close>.\<close>
  "kioskDraft =
     \<lparr>dr_type = Member, dr_name = ''Juan'', dr_gymNumber = Some ''G-0001'', dr_photoUrl = None,
      dr_amountPaid = Some 0, dr_status = Pending, dr_needsCoach = False,
      dr_coachAssigned = None, dr_paymentDetails = None, dr_balance = None,
      dr_amountDue = None, dr_checkoutTimestamp = None, dr_cancellationReason = None,
      dr_pendingAction = Some ActCheckIn, dr_productsPurchased = None,
      dr_balanceDueDate = None, dr_walkinClientId = None, dr_isNewWalkin = None,
      dr_contactNumber = None, dr_className = None, dr_sessionPlanDetails = None,
      dr_carriedOverBalance = None, dr_sessionCompleted = None\<rparr>"


definition monthlyPlan :: PricePlan where
  "monthlyPlan = \<lparr>pp_id = ''price-2'', pp_name = ''Monthly'', pp_amount = 900, pp_type = PtMember\<rparr>"



definition exampleMember :: Member where
  \<comment> \<open>Member G-0001: membership due on 1 January 2024; 3 of 10 coaching sessions used,
      the sessions expired on 31 December 2023.\<close>
  "exampleMember =
     \<lparr>mb_id = ''G-0001'', mb_name = ''Juan'', mb_photoUrl = None, mb_status = ''Active'',
      mb_membershipType = ''Monthly'', mb_details = '''', mb_hasCoach = True,
      mb_coachName = None, mb_trainingType = None, mb_membershipStartDate = ''2023-06-01'',
      mb_subscriptionStartDate = Some ''2023-12-01'', mb_lastPaymentDate = ''2023-12-01'',
      mb_dueDate = Some ''2024-01-01'', mb_totalSessions = Some 10, mb_sessionsUsed = Some 3,
      mb_daysRemainingOnFreeze = None, mb_coachPlanId = None,
      mb_sessionExpiryDate = Some ''2023-12-31'', mb_membershipFeeLastPaid = None,
      mb_membershipFeeDueDate = None, mb_lockerStartDate = None, mb_lockerDueDate = None,
      mb_classId = None, mb_className = None, mb_history = None\<rparr>"


section \<open>The ledger relation\<close>



section \<open>Properties of the check-in record ledger\<close>

lemma map_unmatched:
  "(\<And>r. r \<in> set prev \<Longrightarrow> f r = r) \<Longrightarrow> map f prev = prev"
  by (rule map_idI)

lemma concat_unmatched:
  "(\<And>r. r \<in> set prev \<Longrightarrow> g r = []) \<Longrightarrow> concat (map g prev) = []"
  by (induction prev) auto

lemma find_unmatched:
  "\<forall>r\<in>set prev. cr_id r \<noteq> recordId \<Longrightarrow> find (\<lambda>r. cr_id r = recordId) prev = None"
  by (simp add: find_None_iff)

text \<open>
  Claim C4. A payment \<open>p\<close> with \<open>0 < p \<le> b\<close>, applied by \<^verbatim>\<open>addPaymentToRecord\<close> to a
  record with balance \<open>b\<close> and amount paid \<open>a\<close>, leaves it with amount paid \<open>a + p\<close> and
  balance \<open>b - p\<close>; if that balance is still positive, the due date that was passed is the
  record's \<^verbatim>\<open>balanceDueDate\<close>; the records with another id are unchanged.
\<close>

theorem payment_updates_record:
  assumes "i < length prev" and "cr_id (prev ! i) = recordId"
    and "0 < p" and "p \<le> cr_balance (prev ! i)"
  shows "length (addPaymentToRecord recordId p due prev) = length prev
       \<and> cr_amountPaid (addPaymentToRecord recordId p due prev ! i) = cr_amountPaid (prev ! i) + p
       \<and> cr_balance (addPaymentToRecord recordId p due prev ! i) = cr_balance (prev ! i) - p
       \<and> (0 < cr_balance (addPaymentToRecord recordId p due prev ! i)
            \<longrightarrow> cr_balanceDueDate (addPaymentToRecord recordId p due prev ! i) = due)
       \<and> (\<forall>j < length prev. cr_id (prev ! j) \<noteq> recordId
            \<longrightarrow> addPaymentToRecord recordId p due prev ! j = prev ! j)"
  using assms by (simp add: addPaymentToRecord_def Let_def)

theorem payment_updates_record_witness:
  "0 < length [openTab] \<and> cr_id ([openTab] ! 0) = ''rec-1''
   \<and> (0::rat) < 300 \<and> 300 \<le> cr_balance ([openTab] ! 0)
   \<and> cr_amountPaid (addPaymentToRecord ''rec-1'' 300 (Some ''2024-03-01'') [openTab] ! 0) = 300
   \<and> cr_balance (addPaymentToRecord ''rec-1'' 300 (Some ''2024-03-01'') [openTab] ! 0) = 200
   \<and> cr_balanceDueDate (addPaymentToRecord ''rec-1'' 300 (Some ''2024-03-01'') [openTab] ! 0)
       = Some ''2024-03-01''"
  using payment_updates_record [of 0 "[openTab]" "''rec-1''" 300 "Some ''2024-03-01''"]
  by (simp add: openTab_def)

text \<open>
  Claim C10. Each operation keyed by a record id (\<^verbatim>\<open>confirmPendingRecord\<close>,
  \<^verbatim>\<open>cancelPendingRecord\<close>, \<^verbatim>\<open>confirmCheckout\<close>, \<^verbatim>\<open>cancelPendingCheckout\<close>,
  \<^verbatim>\<open>addCheckoutRecord\<close>, \<^verbatim>\<open>addPaymentToRecord\<close>, \<^verbatim>\<open>processPayment\<close>,
  \<^verbatim>\<open>addPlansToRecordTab\<close>, \<^verbatim>\<open>removeItemFromRecord\<close>, \<^verbatim>\<open>assignCoachToRecord\<close>,
  \<^verbatim>\<open>markRecordSessionCompleted\<close>), called with an id that no record of the collection
  has, returns the collection unchanged; it raises no alert and calls no walk-in
  operation.
\<close>

theorem unknown_id_is_noop:
  assumes "\<forall>r\<in>set prev. cr_id r \<noteq> recordId"
  shows "confirmPendingRecord ck recordId updates prev = (prev, [])
       \<and> cancelPendingRecord recordId reason prev = prev
       \<and> confirmCheckout ck recordId balanceDueDate prev = (prev, None)
       \<and> cancelPendingCheckout recordId prev = prev
       \<and> addCheckoutRecord ck rnd recordId products tot prev = prev
       \<and> addPaymentToRecord recordId paymentAmount newBalanceDueDate prev = prev
       \<and> processPayment recordId paymentAmount settledProductIds newBalanceDueDate prev = prev
       \<and> addPlansToRecordTab ck rnd recordId plans prev = prev
       \<and> removeItemFromRecord recordId itemId prev = prev
       \<and> assignCoachToRecord recordId coachName prev = prev
       \<and> markRecordSessionCompleted recordId prev = prev"
proof -
  have nomatch: "\<And>r. r \<in> set prev \<Longrightarrow> cr_id r \<noteq> recordId"
    using assms by blast
  have c1: "confirmPendingRecord ck recordId updates prev = (prev, [])"
    unfolding confirmPendingRecord_def
    by (simp add: nomatch map_unmatched concat_unmatched)
  have c2: "cancelPendingRecord recordId reason prev = prev"
    unfolding cancelPendingRecord_def by (rule map_unmatched) (simp add: nomatch)
  have c3: "confirmCheckout ck recordId balanceDueDate prev = (prev, None)"
    unfolding confirmCheckout_def checkoutBlocked_def
    by (simp add: find_unmatched [OF assms] nomatch map_unmatched)
  have c4: "cancelPendingCheckout recordId prev = prev"
    unfolding cancelPendingCheckout_def by (rule map_unmatched) (simp add: nomatch)
  have c5: "addCheckoutRecord ck rnd recordId products tot prev = prev"
    unfolding addCheckoutRecord_def by (rule map_unmatched) (simp add: nomatch)
  have c6: "addPaymentToRecord recordId paymentAmount newBalanceDueDate prev = prev"
    unfolding addPaymentToRecord_def by (rule map_unmatched) (simp add: nomatch)
  have c7: "processPayment recordId paymentAmount settledProductIds newBalanceDueDate prev = prev"
    unfolding processPayment_def by (rule map_unmatched) (simp add: nomatch)
  have c8: "addPlansToRecordTab ck rnd recordId plans prev = prev"
    unfolding addPlansToRecordTab_def by (rule map_unmatched) (simp add: nomatch)
  have c9: "removeItemFromRecord recordId itemId prev = prev"
    unfolding removeItemFromRecord_def by (rule map_unmatched) (simp add: nomatch)
  have c10: "assignCoachToRecord recordId coachName prev = prev"
    unfolding assignCoachToRecord_def by (rule map_unmatched) (simp add: nomatch)
  have c11: "markRecordSessionCompleted recordId prev = prev"
    unfolding markRecordSessionCompleted_def by (rule map_unmatched) (simp add: nomatch)
  show ?thesis
    using c1 c2 c3 c4 c5 c6 c7 c8 c9 c10 c11 by blast
qed

theorem unknown_id_is_noop_witness:
  "cr_id openTab \<noteq> ''rec-9''
   \<and> confirmPendingRecord exampleClock ''rec-9'' None [openTab] = ([openTab], [])
   \<and> confirmCheckout exampleClock ''rec-9'' None [openTab] = ([openTab], None)
   \<and> addPaymentToRecord ''rec-9'' 300 None [openTab] = [openTab]
   \<and> removeItemFromRecord ''rec-9'' ''item-1'' [openTab] = [openTab]"
proof -
  have h: "\<forall>r\<in>set [openTab]. cr_id r \<noteq> ''rec-9''"
    by (simp add: openTab_def)
  show ?thesis
    using h unknown_id_is_noop [where prev = "[openTab]" and recordId = "''rec-9''"
        and ck = exampleClock and updates = None and balanceDueDate = None
        and paymentAmount = 300 and newBalanceDueDate = None and itemId = "''item-1''"]
    by simp
qed

lemma find_first:
  "i < length xs \<Longrightarrow> P (xs ! i) \<Longrightarrow> \<forall>j<i. \<not> P (xs ! j) \<Longrightarrow> find P xs = Some (xs ! i)"
  by (auto simp: find_Some_iff)

text \<open>
  Claim C3, as the code has it. \<^verbatim>\<open>confirmCheckout\<close> acts on a record only when the
  record's \<^verbatim>\<open>pendingAction\<close> is \<^verbatim>\<open>checkout\<close>. For the record it finds for the id, in
  that state: when the balance is positive and no due date (or an empty one) is passed,
  the collection is returned unchanged together with an alert; otherwise no alert is
  raised, \<^verbatim>\<open>pendingAction\<close> is cleared, \<^verbatim>\<open>checkoutTimestamp\<close> is set to the current time,
  a due date that was passed is stored, and the records with another id are unchanged.
  A record in any other state is left as it is, and no alert is raised.
\<close>

theorem checkout_confirmation:
  assumes "i < length prev" and "cr_id (prev ! i) = recordId"
    and "\<forall>j<i. cr_id (prev ! j) \<noteq> recordId"
  shows "if cr_pendingAction (prev ! i) = Some ActCheckout then
           (if 0 < cr_balance (prev ! i) \<and> \<not> truthy balanceDueDate
            then confirmCheckout ck recordId balanceDueDate prev
                   = (prev, Some (checkoutAlert (prev ! i)))
            else snd (confirmCheckout ck recordId balanceDueDate prev) = None
                 \<and> length (fst (confirmCheckout ck recordId balanceDueDate prev)) = length prev
                 \<and> fst (confirmCheckout ck recordId balanceDueDate prev) ! i
                     = (prev ! i)\<lparr>cr_pendingAction := None,
                                   cr_checkoutTimestamp := Some (getLocalISOString ck),
                                   cr_balanceDueDate :=
                                     (if truthy balanceDueDate then balanceDueDate
                                      else cr_balanceDueDate (prev ! i))\<rparr>
                 \<and> (\<forall>j<length prev. cr_id (prev ! j) \<noteq> recordId
                      \<longrightarrow> fst (confirmCheckout ck recordId balanceDueDate prev) ! j = prev ! j))
         else snd (confirmCheckout ck recordId balanceDueDate prev) = None
              \<and> fst (confirmCheckout ck recordId balanceDueDate prev) ! i = prev ! i"
proof -
  have found: "find (\<lambda>r. cr_id r = recordId) prev = Some (prev ! i)"
    using assms by (intro find_first) auto
  show ?thesis
  proof (cases "cr_pendingAction (prev ! i) = Some ActCheckout")
    case requested: True
    show ?thesis
    proof (cases "0 < cr_balance (prev ! i) \<and> \<not> truthy balanceDueDate")
      case True
      then show ?thesis
        using requested by (simp add: confirmCheckout_def checkoutBlocked_def found)
    next
      case False
      then have "checkoutBlocked recordId balanceDueDate prev = None"
        using requested by (auto simp: checkoutBlocked_def found)
      then show ?thesis
        using False requested assms(1,2) by (auto simp: confirmCheckout_def orElse_def)
    qed
  next
    case False
    then have "checkoutBlocked recordId balanceDueDate prev = None"
      by (simp add: checkoutBlocked_def found)
    then show ?thesis
      using False assms(1) by (simp add: confirmCheckout_def)
  qed
qed

theorem checkout_confirmation_witness:
  "cr_id ([pendingCheckoutTab] ! 0) = ''rec-1''
   \<and> cr_pendingAction ([pendingCheckoutTab] ! 0) = Some ActCheckout
   \<and> 0 < cr_balance ([pendingCheckoutTab] ! 0)
   \<and> confirmCheckout exampleClock ''rec-1'' None [pendingCheckoutTab]
       = ([pendingCheckoutTab], Some (checkoutAlert pendingCheckoutTab))
   \<and> cr_pendingAction (fst (confirmCheckout exampleClock ''rec-1'' (Some ''2024-03-01'')
                               [pendingCheckoutTab]) ! 0) = None
   \<and> cr_balanceDueDate (fst (confirmCheckout exampleClock ''rec-1'' (Some ''2024-03-01'')
                               [pendingCheckoutTab]) ! 0) = Some ''2024-03-01''"
  using checkout_confirmation [of 0 "[pendingCheckoutTab]" "''rec-1''" None exampleClock]
    checkout_confirmation [of 0 "[pendingCheckoutTab]" "''rec-1''" "Some ''2024-03-01''" exampleClock]
  by (simp add: pendingCheckoutTab_def openTab_def truthy_def)

text \<open>
  The claim as stated, for every record, fails on a record whose checkout was not
  requested: with a positive balance and no due date no alert is raised, and with a due
  date the record is not stamped.
\<close>

theorem checkout_without_request_counterexample:
  "0 < cr_balance openTab
   \<and> confirmCheckout exampleClock ''rec-1'' None [openTab] = ([openTab], None)
   \<and> cr_checkoutTimestamp
        (fst (confirmCheckout exampleClock ''rec-1'' (Some ''2024-03-01'') [openTab]) ! 0) = None"
  by (simp add: confirmCheckout_def checkoutBlocked_def openTab_def)











text \<open>
  Claim C5 against the code. Three operations leave a record with a balance of 0 and a
  \<^verbatim>\<open>balanceDueDate\<close>: \<^verbatim>\<open>addCheckinRecord\<close> sets the balance of a record it carries over
  to 0 and keeps the record's due date; \<^verbatim>\<open>addPartialDuesPaymentToRecord\<close> stores the due
  date whatever the new balance is; \<^verbatim>\<open>confirmCheckout\<close> stores a due date passed for a
  record that owes nothing.
\<close>

theorem due_date_left_on_zero_balance:
  "cr_balance (addCheckinRecord exampleClock kioskDraft [settledLater] ! 1) = 0
   \<and> cr_balanceDueDate (addCheckinRecord exampleClock kioskDraft [settledLater] ! 1)
       = Some ''2024-03-01''
   \<and> cr_balance (addPartialDuesPaymentToRecord ''rec-1'' [monthlyPlan] 1400 ''2024-03-01''
                   [openTab] ! 0) = 0
   \<and> cr_balanceDueDate (addPartialDuesPaymentToRecord ''rec-1'' [monthlyPlan] 1400 ''2024-03-01''
                          [openTab] ! 0) = Some ''2024-03-01''
   \<and> cr_balance (fst (confirmCheckout exampleClock ''rec-1'' (Some ''2024-03-01'')
                        [paidUpCheckout]) ! 0) = 0
   \<and> cr_balanceDueDate (fst (confirmCheckout exampleClock ''rec-1'' (Some ''2024-03-01'')
                               [paidUpCheckout]) ! 0) = Some ''2024-03-01''"
  by (simp add: addCheckinRecord_def recordIdsWithBalance_def carriesBalance_def
      clientIdOf_def clientIdentifier_def truthy_def orElse_def
      addPartialDuesPaymentToRecord_def sumAmounts_def confirmCheckout_def checkoutBlocked_def
      settledLater_def kioskDraft_def openTab_def paidUpCheckout_def monthlyPlan_def)

section \<open>Properties of the walk-in client ledger\<close>






section \<open>Properties of the date utilities\<close>

lemmas str_eval = trim_def isSpace_def isDigit_def digitVal_def digitsToNat_def parseInt10_def
  truthy_def Let_def

lemmas date_eval = newDateYMD_def mkDate_def normDay.simps daysInMonth_def isLeap_def inRange_def
  prevMonth_def nextMonth_def

lemmas show_eval = showInt_def showNat.simps digitChar_def padStart2_def



lemma parse_2023_12_31:
  "parseDate h (Some ''2023-12-31'') = Some \<lparr>d_year = 2023, d_month = 11, d_day = 31, d_ms = 0\<rparr>"
  by (simp add: parseDate_def str_eval date_eval)

text \<open>
  The three formats are read, 29 February 2024 in each of them; and with an engine that
  rejects what reaches the fallback, a day that the month does not have is rejected.
\<close>

lemma parseDate_three_formats:
  "parseDate h (Some ''2024-02-29'') = Some \<lparr>d_year = 2024, d_month = 1, d_day = 29, d_ms = 0\<rparr>"
  "parseDate h (Some ''29-02-2024'') = Some \<lparr>d_year = 2024, d_month = 1, d_day = 29, d_ms = 0\<rparr>"
  "parseDate h (Some ''29/02/2024'') = Some \<lparr>d_year = 2024, d_month = 1, d_day = 29, d_ms = 0\<rparr>"
  by (simp_all add: parseDate_def str_eval date_eval)

lemma parseDate_rejects_with_strict_host:
  "parseDate noHost (Some ''2024-02-30'') = None"
  "parseDate noHost (Some ''30-02-2024'') = None"
  "parseDate noHost (Some ''30/02/2024'') = None"
  "parseDate noHost (Some ''29/02/2023'') = None"
  by (simp_all add: parseDate_def str_eval date_eval noHost_def)

text \<open>
  Claim C9 against the code. For \<^verbatim>\<open>"2024-02-30"\<close> the manual parse builds 1 March 2024,
  sees that the fields do not round-trip and returns nothing; control then reaches the
  fallback, and \<^verbatim>\<open>parseDate\<close> returns whatever the engine's \<^verbatim>\<open>new Date(string)\<close> makes
  of the same string, provided its year lies between 1900 and 2100.
\<close>

theorem invalid_date_reaches_fallback:
  "parseDate host (Some ''2024-02-30'')
     = (case host ''2024-02-30'' of
          None \<Rightarrow> None
        | Some d \<Rightarrow> if 1900 < d_year d \<and> d_year d < 2100 then Some d else None)"
  by (simp add: parseDate_def str_eval date_eval)

theorem invalid_date_reaches_fallback_witness:
  "parseDate rollingHost (Some ''2024-02-30'')
     = Some \<lparr>d_year = 2024, d_month = 2, d_day = 1, d_ms = 28800000\<rparr>
   \<and> formatToYMD (parseDate rollingHost (Some ''2024-02-30'')) = ''2024-03-01''"
  using invalid_date_reaches_fallback [of rollingHost]
  by (simp add: rollingHost_def formatToYMD_def show_eval)

section \<open>Properties of the member ledger\<close>


lemma dueDate_addHistoryEntry [simp]:
  "mb_dueDate (addHistoryEntry ck m ty title details amount) = mb_dueDate m"
  by (simp add: addHistoryEntry_def)

lemma dueDate_renewed [simp]:
  "mb_dueDate (renewed ck m n s due) = Some (formatToYMD due)"
  by (simp add: renewed_def)

lemma monthly_interval: "planInterval (toLowerCase ''Monthly'') = Some (\<lambda>d. addMonths d 1)"
  by (simp add: planInterval_def toLowerCase_def lowerChar_def)




text \<open>
  Claim C7 against the code. \<^verbatim>\<open>useSession\<close> tests only that the member has a coach and
  that sessions are left; it does not look at \<^verbatim>\<open>sessionExpiryDate\<close>. On 10 January 2024,
  for a member whose sessions expired on 31 December 2023 with 3 of 10 used, it returns
  true and records a fourth session, where \<^verbatim>\<open>markSessionComplete\<close> answers with its
  message that the sessions have expired.
\<close>

theorem useSession_ignores_expiry:
  "isPastOrToday noHost exampleClock (mb_sessionExpiryDate exampleMember)
   \<and> snd (useSession exampleClock ''G-0001'' [exampleMember])
   \<and> map mb_sessionsUsed (fst (useSession exampleClock ''G-0001'' [exampleMember])) = [Some 4]
   \<and> fst (snd (markSessionComplete noHost exampleClock ''G-0001'' [exampleMember])) = MsgInfo"
proof -
  have e: "isPastOrToday noHost exampleClock (mb_sessionExpiryDate exampleMember)"
    by (simp add: isPastOrToday_def exampleMember_def parse_2023_12_31 truthy_def dateLe_def
        setHours0_def exampleClock_def)
  have u: "sessionLeft ''G-0001'' exampleMember"
    by (simp add: sessionLeft_def exampleMember_def intOrZero_def)
  have m: "fst (snd (markSessionMember noHost exampleClock exampleMember)) = MsgInfo"
    using e by (simp add: markSessionMember_def) (simp add: exampleMember_def truthy_def)
  have s: "map mb_sessionsUsed (fst (useSession exampleClock ''G-0001'' [exampleMember])) = [Some 4]"
    using u by (simp add: useSession_def Let_def addHistoryEntry_def)
      (simp add: exampleMember_def intOrZero_def)
  have k: "fst (snd (markSessionComplete noHost exampleClock ''G-0001'' [exampleMember])) = MsgInfo"
    using m by (simp add: markSessionComplete_def case_prod_beta) (simp add: exampleMember_def)
  from e u s k show ?thesis
    by (simp add: useSession_def)
qed

end
